theory Spec2Isabelle
  imports Complex_Main "HOL-Library.Word"
begin

unbundle bit_operations_syntax

section \<open>Font control sequences and the context they update (control.py)\<close>

text \<open>
  The embedding follows \<^verbatim>\<open>control.py\<close> under Python 3 semantics. Python's unbounded
  integers are \<^typ>\<open>int\<close>; byte buffers (\<^verbatim>\<open>bytes\<close>, \<^verbatim>\<open>bytearray\<close>) are lists of
  8-bit words; buffer positions are \<^typ>\<open>nat\<close>. Numbers in coordinate positions
  (cursor, limits, bounds, matrix entries, underline metrics) are Python ints or floats
  and are modelled as exact rationals. Optional parameters (\<^verbatim>\<open>None\<close> defaults) are
  \<^typ>\<open>'a option\<close>. Exceptions are values of \<open>py_error\<close>.
\<close>

type_synonym byte = "8 word"
type_synonym bytes = "byte list"

datatype py_error = TypeError | StructError | LookupError

subsection \<open>Geometry primitives\<close>

text \<open>
  Modelled from the spec: the class \<^verbatim>\<open>Matrix\<close> of \<^verbatim>\<open>riscos.graphics.structs\<close> is not
  part of the sources. The spec gives a 2x3 affine transform with entries (a, b, c, d, e, f),
  the identity as the constructor's default, point application
  (x, y) -> (a x + c y + e, b x + d y + f), the bounding box as the axis-aligned envelope
  of the four transformed corners, and truthiness: falsy iff the transform is the identity.
\<close>

datatype matrix = Matrix rat rat rat rat rat rat

definition matrix_identity :: matrix where
  "matrix_identity = Matrix 1 0 0 1 0 0"

fun matrix_apply :: "matrix \<Rightarrow> rat \<Rightarrow> rat \<Rightarrow> rat \<times> rat" where
  "matrix_apply (Matrix a b c d e f) px py = (a * px + c * py + e, b * px + d * py + f)"

definition matrix_bbox :: "matrix \<Rightarrow> rat \<Rightarrow> rat \<Rightarrow> rat \<Rightarrow> rat \<Rightarrow> rat \<times> rat \<times> rat \<times> rat" where
  "matrix_bbox m x0 y0 x1 y1 =
     (let p1 = matrix_apply m x0 y0; p2 = matrix_apply m x1 y0;
          p3 = matrix_apply m x0 y1; p4 = matrix_apply m x1 y1
      in (min (min (fst p1) (fst p2)) (min (fst p3) (fst p4)),
          min (min (snd p1) (snd p2)) (min (snd p3) (snd p4)),
          max (max (fst p1) (fst p2)) (max (fst p3) (fst p4)),
          max (max (snd p1) (snd p2)) (max (snd p3) (snd p4))))"

definition matrix_truthy :: "matrix \<Rightarrow> bool" where
  "matrix_truthy m = (m \<noteq> matrix_identity)"

text \<open>
  Modelled from the spec: the class \<^verbatim>\<open>Bounds\<close> of \<^verbatim>\<open>riscos.graphics.structs\<close> is not
  part of the sources. The spec gives an axis-aligned rectangle or the empty bound, with
  union (\<^verbatim>\<open>+=\<close>) for which the empty bound is the identity.
\<close>

datatype bounds = BoundsEmpty | BoundsRect rat rat rat rat

fun bounds_add :: "bounds \<Rightarrow> rat \<times> rat \<times> rat \<times> rat \<Rightarrow> bounds" where
  "bounds_add BoundsEmpty (x0, y0, x1, y1) = BoundsRect x0 y0 x1 y1"
| "bounds_add (BoundsRect a0 b0 a1 b1) (x0, y0, x1, y1) =
     BoundsRect (min a0 x0) (min b0 y0) (max a1 x1) (max b1 y1)"

subsection \<open>FontContext\<close>

text \<open>
  The fields of \<^verbatim>\<open>FontContext\<close>. The cursor fields \<^verbatim>\<open>x\<close> and \<^verbatim>\<open>y\<close> are named
  \<open>ctx_x\<close> and \<open>ctx_y\<close>. The font object is opaque (type \<open>'f\<close>); \<^verbatim>\<open>None\<close> before
  a font is selected. The limits are \<^verbatim>\<open>None\<close> until \<^verbatim>\<open>size\<close> sets them.
\<close>

record 'f font_context =
  maxcol :: int
  bg :: int
  fgbase :: int
  fgoffset :: int
  fg :: int
  fgpal :: int
  bgpal :: int
  font_handle :: int
  font :: "'f option"
  underline_pos :: rat
  underline_thickness :: rat
  transform :: matrix
  ctx_x :: rat
  ctx_y :: rat
  limitx :: "rat option"
  limity :: "rat option"
  bounds :: bounds

text \<open>
  The methods a managing system replaces in a subclass of \<^verbatim>\<open>FontContext\<close>. They are
  methods of the context, so \<^verbatim>\<open>font_bounds\<close> may read any of its fields. A \<^verbatim>\<open>font_lookup\<close>
  that raises returns \<^const>\<open>None\<close>.
\<close>

record 'f hooks =
  gcol_to_rgb :: "int \<Rightarrow> int"
  rgb_to_gcol :: "int \<Rightarrow> int"
  font_lookup :: "int \<Rightarrow> 'f option"
  font_bounds :: "'f font_context \<Rightarrow> bytes option \<Rightarrow> rat \<times> rat \<times> rat \<times> rat \<times> rat \<times> rat"

definition FontContext_init :: "'f font_context" where
  "FontContext_init =
     \<lparr> maxcol = 7, bg = 0, fgbase = 0, fgoffset = 0, fg = 0,
       fgpal = 0x00000010, bgpal = 0x00000010,
       font_handle = 0, font = None,
       underline_pos = 0, underline_thickness = 0,
       transform = matrix_identity,
       ctx_x = 0, ctx_y = 0, limitx = None, limity = None,
       bounds = BoundsEmpty \<rparr>"

definition clear_bounds :: "'f font_context \<Rightarrow> 'f font_context" where
  "clear_bounds c = c\<lparr>bounds := BoundsEmpty\<rparr>"

definition clear_transform :: "'f font_context \<Rightarrow> 'f font_context" where
  "clear_transform c = c\<lparr>transform := matrix_identity\<rparr>"

definition clear_underline :: "'f font_context \<Rightarrow> 'f font_context" where
  "clear_underline c = c\<lparr>underline_pos := 0, underline_thickness := 0\<rparr>"

definition saturate :: "int \<Rightarrow> int \<Rightarrow> int \<Rightarrow> int" where
  "saturate v vmin vmax = max (min v vmax) vmin"

text \<open>The default colour conversions: one bit each of R, G and B.\<close>

definition default_gcol_to_rgb :: "int \<Rightarrow> int" where
  "default_gcol_to_rgb gcol =
     (let r = (if gcol AND 1 \<noteq> 0 then push_bit 8 255 else 0);
          g = (if gcol AND 2 \<noteq> 0 then push_bit 16 255 else 0);
          b = (if gcol AND 4 \<noteq> 0 then push_bit 24 255 else 0)
      in r OR g OR b OR 0x10)"

definition default_rgb_to_gcol :: "int \<Rightarrow> int" where
  "default_rgb_to_gcol rgb =
     ((drop_bit 15 rgb AND 1) OR (drop_bit 22 rgb AND 2) OR (drop_bit 29 rgb AND 4))"

definition gcol_updated :: "'f hooks \<Rightarrow> 'f font_context \<Rightarrow> 'f font_context" where
  "gcol_updated h c =
     (let c1 = c\<lparr>bg := saturate (bg c) 0 (maxcol c)\<rparr>;
          c2 = c1\<lparr>fg := saturate (fg c1) 0 (maxcol c1)\<rparr>;
          c3 = c2\<lparr>fgbase := saturate (fg c2 - fgoffset c2) 0 (maxcol c2)\<rparr>;
          c4 = c3\<lparr>fgoffset := fg c3 - fgbase c3\<rparr>;
          c5 = c4\<lparr>fgpal := gcol_to_rgb h (fg c4)\<rparr>
      in c5\<lparr>bgpal := gcol_to_rgb h (bg c5)\<rparr>)"

definition rgb_updated :: "'f hooks \<Rightarrow> 'f font_context \<Rightarrow> 'f font_context" where
  "rgb_updated h c =
     (let c1 = c\<lparr>bg := rgb_to_gcol h (bgpal c)\<rparr>;
          c2 = c1\<lparr>fg := rgb_to_gcol h (fgpal c1)\<rparr>;
          c3 = c2\<lparr>fgbase := fg c2 - fgoffset c2\<rparr>
      in gcol_updated h c3)"

text \<open>
  \<^verbatim>\<open>select_colour(bg, fg, fgoffset, bgpal, fgpal)\<close>, the parameters in the order of
  the source's signature.
\<close>

definition select_colour ::
  "'f hooks \<Rightarrow> 'f font_context \<Rightarrow> int option \<Rightarrow> int option \<Rightarrow> int option \<Rightarrow> int option \<Rightarrow> int option
     \<Rightarrow> 'f font_context" where
  "select_colour h c bg_arg fg_arg fgoffset_arg bgpal_arg fgpal_arg =
     (let gcol_changed = (fg_arg \<noteq> None \<or> bg_arg \<noteq> None);
          c1 = (case fg_arg of Some v \<Rightarrow> c\<lparr>fgbase := v\<rparr> | None \<Rightarrow> c);
          c2 = (case bg_arg of Some v \<Rightarrow> c1\<lparr>bg := v\<rparr> | None \<Rightarrow> c1);
          c3 = (case fgoffset_arg of Some v \<Rightarrow> c2\<lparr>fgoffset := v\<rparr> | None \<Rightarrow> c2);
          c4 = (if gcol_changed \<or> fgoffset_arg \<noteq> None
                then c3\<lparr>fg := fgbase c3 + fgoffset c3\<rparr> else c3);
          c5 = (if gcol_changed then gcol_updated h c4 else c4);
          rgb_changed = (fgpal_arg \<noteq> None \<or> bgpal_arg \<noteq> None);
          c6 = (case fgpal_arg of Some v \<Rightarrow> c5\<lparr>fgpal := v\<rparr> | None \<Rightarrow> c5);
          c7 = (case bgpal_arg of Some v \<Rightarrow> c6\<lparr>bgpal := v\<rparr> | None \<Rightarrow> c6)
      in if rgb_changed then rgb_updated h c7 else c7)"

definition select_font :: "'f hooks \<Rightarrow> 'f font_context \<Rightarrow> int \<Rightarrow> py_error + 'f font_context" where
  "select_font h c handle =
     (case font_lookup h handle of
        None \<Rightarrow> Inl LookupError
      | Some fnt \<Rightarrow> Inr (c\<lparr>font := Some fnt, font_handle := handle\<rparr>))"

text \<open>
  The local function \<^verbatim>\<open>beyond_limits\<close> of \<^verbatim>\<open>size\<close>. Python evaluates the four arms
  left to right and stops at the first true one; comparing \<^verbatim>\<open>None\<close> with a number
  raises \<^verbatim>\<open>TypeError\<close>.
\<close>

definition beyond_limits :: "'f font_context \<Rightarrow> py_error + bool" where
  "beyond_limits c =
     (case limitx c of
        None \<Rightarrow> Inl TypeError
      | Some lx \<Rightarrow>
          if (lx \<ge> 0 \<and> ctx_x c > lx) \<or> (lx < 0 \<and> ctx_x c > lx) then Inr True
          else (case limity c of
                  None \<Rightarrow> Inl TypeError
                | Some ly \<Rightarrow> Inr ((ly \<ge> 0 \<and> ctx_y c > ly) \<or> (ly < 0 \<and> ctx_y c < ly))))"

text \<open>The colour-state invariant of the palette side, as the spec states it.\<close>

definition palette_invariant :: "'f font_context \<Rightarrow> bool" where
  "palette_invariant c =
     (fg c = saturate (fgbase c + fgoffset c) 0 (maxcol c)
      \<and> 0 \<le> fg c \<and> fg c \<le> maxcol c \<and> 0 \<le> bg c \<and> bg c \<le> maxcol c)"

definition default_hooks :: "'f hooks" where
  "default_hooks =
     \<lparr> gcol_to_rgb = default_gcol_to_rgb, rgb_to_gcol = default_rgb_to_gcol,
       font_lookup = (\<lambda>handle. None),
       font_bounds = (\<lambda>c s. (0, 0, 0, 0, 0, 0)) \<rparr>"

text \<open>
  The limit test as the spec words it: beyond limits iff \<open>x > limit_x\<close> or
  \<open>y > limit_y\<close>, whatever the sign of the limits.
\<close>

definition beyond_limits_spec :: "rat \<Rightarrow> rat \<Rightarrow> rat \<Rightarrow> rat \<Rightarrow> bool" where
  "beyond_limits_spec px py lx ly = (px > lx \<or> py > ly)"

subsection \<open>Control records\<close>

text \<open>
  The classes descended from \<^verbatim>\<open>FontControlBase\<close>, one constructor each; the first two
  arguments are \<^verbatim>\<open>index_start\<close> and \<^verbatim>\<open>index_end\<close>, the rest the payload in the
  order of the class's fields (GCOL and RGB: \<^verbatim>\<open>fg\<close>, \<^verbatim>\<open>bg\<close>, \<^verbatim>\<open>offset\<close>;
  moves: \<^verbatim>\<open>dx\<close>, \<^verbatim>\<open>dy\<close>; underline: \<^verbatim>\<open>underline_pos\<close>, \<^verbatim>\<open>underline_thickness\<close>).
\<close>

datatype font_control =
    FontControlString nat nat bytes
  | FontControlMove nat nat int int
  | FontControlMatrix nat nat matrix
  | FontControlGCOL nat nat "int option" "int option" "int option"
  | FontControlRGB nat nat "int option" "int option" "int option"
  | FontControlComment nat nat bytes
  | FontControlUnderline nat nat int int
  | FontControlFont nat nat int
  | FontControlMoveCharacter nat nat int int
  | FontControlMoveSpace nat nat int int

fun index_start :: "font_control \<Rightarrow> nat" where
  "index_start (FontControlString s e v) = s"
| "index_start (FontControlMove s e dx dy) = s"
| "index_start (FontControlMatrix s e m) = s"
| "index_start (FontControlGCOL s e f b ofs) = s"
| "index_start (FontControlRGB s e f b ofs) = s"
| "index_start (FontControlComment s e v) = s"
| "index_start (FontControlUnderline s e p t) = s"
| "index_start (FontControlFont s e fh) = s"
| "index_start (FontControlMoveCharacter s e dx dy) = s"
| "index_start (FontControlMoveSpace s e dx dy) = s"

fun index_end :: "font_control \<Rightarrow> nat" where
  "index_end (FontControlString s e v) = e"
| "index_end (FontControlMove s e dx dy) = e"
| "index_end (FontControlMatrix s e m) = e"
| "index_end (FontControlGCOL s e f b ofs) = e"
| "index_end (FontControlRGB s e f b ofs) = e"
| "index_end (FontControlComment s e v) = e"
| "index_end (FontControlUnderline s e p t) = e"
| "index_end (FontControlFont s e fh) = e"
| "index_end (FontControlMoveCharacter s e dx dy) = e"
| "index_end (FontControlMoveSpace s e dx dy) = e"

text \<open>
  \<^verbatim>\<open>FontControlGCOL.__init__(ro, indexes, fg, bg, offset)\<close> and
  \<^verbatim>\<open>FontControlRGB.__init__\<close>: both store \<^verbatim>\<open>fg\<close> and \<^verbatim>\<open>bg\<close> and assign
  \<^verbatim>\<open>self.offset = None\<close>.
\<close>

definition new_FontControlGCOL ::
  "nat \<times> nat \<Rightarrow> int option \<Rightarrow> int option \<Rightarrow> int option \<Rightarrow> font_control" where
  "new_FontControlGCOL indexes fg_arg bg_arg offset_arg =
     FontControlGCOL (fst indexes) (snd indexes) fg_arg bg_arg None"

definition new_FontControlRGB ::
  "nat \<times> nat \<Rightarrow> int option \<Rightarrow> int option \<Rightarrow> int option \<Rightarrow> font_control" where
  "new_FontControlRGB indexes fg_arg bg_arg offset_arg =
     FontControlRGB (fst indexes) (snd indexes) fg_arg bg_arg None"

subsection \<open>FontControlParser\<close>

record parser =
  sequence :: "font_control list"
  string :: bytes
  index :: nat
  max_length :: nat

definition FontControlParser_init :: parser where
  "FontControlParser_init = \<lparr> sequence = [], string = [], index = 0, max_length = 0 \<rparr>"

definition reset :: "parser \<Rightarrow> parser" where
  "reset p = p\<lparr>string := [], index := 0, max_length := 0\<rparr>"

definition clear :: "parser \<Rightarrow> parser" where
  "clear p = reset (p\<lparr>sequence := []\<rparr>)"

definition step_back :: "parser \<Rightarrow> parser" where
  "step_back p = (if index p \<noteq> 0 then p\<lparr>index := index p - 1\<rparr> else p)"

definition read_byte :: "parser \<Rightarrow> int \<times> parser" where
  "read_byte p =
     (if index p \<ge> length (string p) \<or> index p \<ge> max_length p
      then (0, p\<lparr>index := index p + 1\<rparr>)
      else (uint (string p ! index p), p\<lparr>index := index p + 1\<rparr>))"

text \<open>
  \<^verbatim>\<open>struct.unpack('<l', data)\<close> and \<^verbatim>\<open>struct.unpack('<L', data)\<close>: four bytes, little
  endian, is_signed or unsigned; any other length raises \<^verbatim>\<open>struct.error\<close>.
\<close>

fun struct_unpack :: "bool \<Rightarrow> bytes \<Rightarrow> py_error + int" where
  "struct_unpack is_signed [d0, d1, d2, d3] =
     (let v = uint d0 + 256 * uint d1 + 65536 * uint d2 + 16777216 * uint d3
      in Inr (if is_signed \<and> v \<ge> 2147483648 then v - 4294967296 else v))"
| "struct_unpack is_signed data = Inl StructError"

text \<open>
  \<^verbatim>\<open>read_word(is_signed)\<close>: \<^verbatim>\<open>None\<close> (invalid) when the guard finds the end of the
  string; the slice \<^verbatim>\<open>string[index:index + 4]\<close> is cut at the end of the buffer.
\<close>

definition read_word :: "bool \<Rightarrow> parser \<Rightarrow> py_error + (int option \<times> parser)" where
  "read_word is_signed p =
     (if index p + 3 > length (string p) \<or> index p + 3 > max_length p
      then Inr (None, p)
      else (case struct_unpack is_signed (take 4 (drop (index p) (string p))) of
              Inl e \<Rightarrow> Inl e
            | Inr v \<Rightarrow> Inr (Some v, p\<lparr>index := index p + 4\<rparr>)))"

definition read_signedword :: "parser \<Rightarrow> py_error + (int option \<times> parser)" where
  "read_signedword p = read_word True p"

text \<open>
  The construction of the matrix at the end of \<^verbatim>\<open>read_matrix\<close>: dividing \<^verbatim>\<open>None\<close> by
  \<^verbatim>\<open>65536.0\<close> raises \<^verbatim>\<open>TypeError\<close>. Modelled from the spec: the constructor of
  \<^verbatim>\<open>Matrix\<close> is not part of the sources; given a translation that is \<^verbatim>\<open>None\<close> it is
  taken to raise as well (the spec: the record is not emitted).
\<close>

fun new_Matrix ::
  "int option \<Rightarrow> int option \<Rightarrow> int option \<Rightarrow> int option \<Rightarrow> int option \<Rightarrow> int option
     \<Rightarrow> py_error + matrix" where
  "new_Matrix (Some a) (Some b) (Some c) (Some d) (Some e) (Some f) =
     Inr (Matrix (of_int a / 65536) (of_int b / 65536) (of_int c / 65536) (of_int d / 65536)
            (of_int e) (of_int f))"
| "new_Matrix a b c d e f = Inl TypeError"

definition read_matrix :: "bool \<Rightarrow> parser \<Rightarrow> py_error + (matrix \<times> parser)" where
  "read_matrix with_translation p =
     (case read_signedword p of Inl err \<Rightarrow> Inl err | Inr (a, p1) \<Rightarrow>
      case read_signedword p1 of Inl err \<Rightarrow> Inl err | Inr (b, p2) \<Rightarrow>
      case read_signedword p2 of Inl err \<Rightarrow> Inl err | Inr (c, p3) \<Rightarrow>
      case read_signedword p3 of Inl err \<Rightarrow> Inl err | Inr (d, p4) \<Rightarrow>
      if with_translation then
        (case read_signedword p4 of Inl err \<Rightarrow> Inl err | Inr (e, p5) \<Rightarrow>
         case read_signedword p5 of Inl err \<Rightarrow> Inl err | Inr (f, p6) \<Rightarrow>
         case new_Matrix a b c d e f of Inl err \<Rightarrow> Inl err | Inr m \<Rightarrow> Inr (m, p6))
      else
        (case new_Matrix a b c d (Some 0) (Some 0) of
           Inl err \<Rightarrow> Inl err | Inr m \<Rightarrow> Inr (m, p4)))"

definition align :: "parser \<Rightarrow> parser" where
  "align p = p\<lparr>index := nat ((int (index p) + 3) AND NOT 3)\<rparr>"

definition append_control :: "parser \<Rightarrow> font_control \<Rightarrow> parser" where
  "append_control p fc = p\<lparr>sequence := sequence p @ [fc]\<rparr>"

text \<open>The inner loop of opcode 21: bytes are collected until one below 32 is read.\<close>

function read_comment :: "parser \<Rightarrow> bytes \<Rightarrow> bytes \<times> parser" where
  "read_comment p comment =
     (case read_byte p of (b, p1) \<Rightarrow>
        if b < 32 then (comment, p1) else read_comment p1 (comment @ [word_of_int b]))"
  by pat_completeness auto

definition parse_limit :: "parser \<Rightarrow> nat" where
  "parse_limit p = min (length (string p)) (max_length p)"

lemma read_byte_frame:
  "string (snd (read_byte p)) = string p"
  "max_length (snd (read_byte p)) = max_length p"
  "sequence (snd (read_byte p)) = sequence p"
  "index (snd (read_byte p)) = index p + 1"
  by (simp_all add: read_byte_def)

lemma read_byte_printable_in_range:
  "\<not> fst (read_byte p) < 32 \<Longrightarrow> index p < length (string p) \<and> index p < max_length p"
  by (auto simp add: read_byte_def split: if_splits)

lemma parse_limit_decreases:
  assumes "index p < length (string p)" and "index p < max_length p"
    and "string p' = string p" and "max_length p' = max_length p" and "index p < index p'"
  shows "parse_limit p' - index p' < parse_limit p - index p"
  using assms unfolding parse_limit_def by (auto simp add: min_def)

termination read_comment
proof (relation "measure (\<lambda>(p, comment). parse_limit p - index p)")
  show "wf (measure (\<lambda>(p, comment). parse_limit p - index p))" by simp
next
  fix p :: parser and comment :: bytes and b p1
  assume r: "(b, p1) = read_byte p" and "\<not> b < 32"
  then have "index p < length (string p) \<and> index p < max_length p"
    using read_byte_printable_in_range [of p] by (metis fst_conv)
  moreover from r have "string p1 = string p" "max_length p1 = max_length p"
      "index p1 = index p + 1"
    using read_byte_frame [of p] by (metis snd_conv)+
  ultimately show "((p1, comment @ [word_of_int b]), (p, comment))
      \<in> measure (\<lambda>(p, comment). parse_limit p - index p)"
    using parse_limit_decreases [of p p1] by simp
qed

declare read_comment.simps [simp del]

text \<open>
  One iteration of the \<^verbatim>\<open>while True\<close> loop of \<^verbatim>\<open>parse\<close>: \<open>Break\<close> leaves the loop,
  \<open>Continue\<close> goes round again.
\<close>

datatype 'a loop_step = Break 'a | Continue 'a

text \<open>The branches of the dispatch on the opcode \<open>b\<close>, in the order of the source.\<close>

definition parse_move :: "int \<Rightarrow> nat \<Rightarrow> parser \<Rightarrow> parser" where
  "parse_move b start_index p1 =
     (case read_byte p1 of (b0, p2) \<Rightarrow>
      case read_byte p2 of (b1, p3) \<Rightarrow>
      case read_byte p3 of (b2, p4) \<Rightarrow>
      let pos = b0 OR (push_bit 8 b1) OR (push_bit 16 b2);
          fc = (if b = 9 then FontControlMove start_index (index p4) pos 0
                else FontControlMove start_index (index p4) 0 pos)
      in append_control p4 fc)"

definition parse_gcol :: "nat \<Rightarrow> parser \<Rightarrow> parser" where
  "parse_gcol start_index p1 =
     (case read_byte p1 of (gcol0, p2) \<Rightarrow>
      let is_bg = gcol0 AND 0x80;
          gcol = gcol0 AND 0x7f;
          fc = (if is_bg \<noteq> 0
                then new_FontControlGCOL (start_index, index p2) None (Some gcol) None
                else new_FontControlGCOL (start_index, index p2) (Some gcol) None None)
      in append_control p2 fc)"

definition parse_gcol_pair :: "nat \<Rightarrow> parser \<Rightarrow> parser" where
  "parse_gcol_pair start_index p1 =
     (case read_byte p1 of (bg_byte, p2) \<Rightarrow>
      case read_byte p2 of (fg_byte, p3) \<Rightarrow>
      case read_byte p3 of (offset_byte, p4) \<Rightarrow>
      append_control p4
        (new_FontControlGCOL (start_index, index p4)
           (Some fg_byte) (Some bg_byte) (Some offset_byte)))"

definition parse_rgb :: "nat \<Rightarrow> parser \<Rightarrow> parser" where
  "parse_rgb start_index p1 =
     (case read_byte p1 of (r0, p2) \<Rightarrow>
      case read_byte p2 of (g0, p3) \<Rightarrow>
      case read_byte p3 of (b0, p4) \<Rightarrow>
      case read_byte p4 of (r1, p5) \<Rightarrow>
      case read_byte p5 of (g1, p6) \<Rightarrow>
      case read_byte p6 of (b1, p7) \<Rightarrow>
      case read_byte p7 of (offset_byte, p8) \<Rightarrow>
      let bg_rgb = (push_bit 8 r0) OR (push_bit 16 g0) OR (push_bit 24 b0) OR 0x10;
          fg_rgb = (push_bit 8 r1) OR (push_bit 16 g1) OR (push_bit 24 b1) OR 0x10
      in append_control p8
           (new_FontControlRGB (start_index, index p8)
              (Some fg_rgb) (Some bg_rgb) (Some offset_byte)))"

definition parse_comment :: "nat \<Rightarrow> parser \<Rightarrow> parser" where
  "parse_comment start_index p1 =
     (case read_comment p1 [] of (comment, p2) \<Rightarrow>
      append_control p2 (FontControlComment start_index (index p2) comment))"

definition parse_underline :: "nat \<Rightarrow> parser \<Rightarrow> parser" where
  "parse_underline start_index p1 =
     (case read_byte p1 of (pos0, p2) \<Rightarrow>
      case read_byte p2 of (thickness, p3) \<Rightarrow>
      let pos = (if pos0 > 127 then pos0 - 256 else pos0)
      in append_control p3 (FontControlUnderline start_index (index p3) pos thickness))"

definition parse_font :: "nat \<Rightarrow> parser \<Rightarrow> parser" where
  "parse_font start_index p1 =
     (case read_byte p1 of (handle, p2) \<Rightarrow>
      append_control p2 (FontControlFont start_index (index p2) handle))"

definition parse_matrix :: "int \<Rightarrow> nat \<Rightarrow> parser \<Rightarrow> py_error + parser" where
  "parse_matrix b start_index p1 =
     (case read_matrix (b \<noteq> 27) (align p1) of
        Inl err \<Rightarrow> Inl err
      | Inr (m, p2) \<Rightarrow> Inr (append_control p2 (FontControlMatrix start_index (index p2) m)))"

definition parse_printable :: "int \<Rightarrow> nat \<Rightarrow> parser \<Rightarrow> parser" where
  "parse_printable b start_index p1 =
     (case (if sequence p1 = [] then None else Some (last (sequence p1))) of
        Some (FontControlString s e last_string) \<Rightarrow>
          p1\<lparr>sequence := butlast (sequence p1)
             @ [FontControlString s (index p1) (last_string @ [word_of_int b])]\<rparr>
      | _ \<Rightarrow>
          append_control p1 (FontControlString start_index (index p1) [word_of_int b]))"

definition parse_step :: "parser \<Rightarrow> py_error + parser loop_step" where
  "parse_step p =
     (let start_index = index p in
      case read_byte p of (b, p1) \<Rightarrow>
      if b \<in> {0, 10, 13} then Inr (Break (step_back p1))
      else if b \<in> {9, 11} then Inr (Continue (parse_move b start_index p1))
      else if b = 17 then Inr (Continue (parse_gcol start_index p1))
      else if b = 18 then Inr (Continue (parse_gcol_pair start_index p1))
      else if b = 19 then Inr (Continue (parse_rgb start_index p1))
      else if b = 21 then Inr (Continue (parse_comment start_index p1))
      else if b = 25 then Inr (Continue (parse_underline start_index p1))
      else if b = 26 then Inr (Continue (parse_font start_index p1))
      else if b = 27 \<or> b = 28 then
        (case parse_matrix b start_index p1 of
           Inl err \<Rightarrow> Inl err | Inr p2 \<Rightarrow> Inr (Continue p2))
      else if b < 32 then Inr (Break p1)
      else Inr (Continue (parse_printable b start_index p1)))"

text \<open>Buffer and bound unchanged, cursor not moved back.\<close>

definition advances :: "parser \<Rightarrow> parser \<Rightarrow> bool" where
  "advances p p' =
     (string p' = string p \<and> max_length p' = max_length p \<and> index p \<le> index p')"

lemma advances_refl: "advances p p"
  by (simp add: advances_def)

lemma advances_trans: "advances p q \<Longrightarrow> advances q r \<Longrightarrow> advances p r"
  by (simp add: advances_def)

lemma read_byte_advances: "read_byte p = (b, p1) \<Longrightarrow> advances p p1 \<and> index p1 = index p + 1"
  by (auto simp add: read_byte_def advances_def split: if_splits)

lemma read_byte_nonzero_in_range:
  "read_byte p = (b, p1) \<Longrightarrow> b \<noteq> 0 \<Longrightarrow> index p < length (string p) \<and> index p < max_length p"
  by (auto simp add: read_byte_def split: if_splits)

lemma read_comment_advances: "read_comment p c = (c', p') \<Longrightarrow> advances p p'"
proof (induction p c arbitrary: c' p' rule: read_comment.induct)
  case (1 p comment)
  obtain b p1 where r: "read_byte p = (b, p1)" by (cases "read_byte p")
  note adv = read_byte_advances [OF r]
  show ?case
  proof (cases "b < 32")
    case True
    with "1.prems" r adv show ?thesis by (simp add: read_comment.simps [of p])
  next
    case False
    with "1.prems" r have "read_comment p1 (comment @ [word_of_int b]) = (c', p')"
      by (simp add: read_comment.simps [of p])
    then have "advances p1 p'" using "1.IH" r False by simp
    with adv show ?thesis using advances_trans by blast
  qed
qed

lemma read_word_advances: "read_word sg p = Inr (v, p') \<Longrightarrow> advances p p'"
  by (auto simp add: read_word_def advances_def split: if_splits sum.splits)

lemma read_signedword_advances: "read_signedword p = Inr (v, p') \<Longrightarrow> advances p p'"
  unfolding read_signedword_def by (rule read_word_advances)

lemma read_matrix_advances: "read_matrix wt p = Inr (m, p') \<Longrightarrow> advances p p'"
  unfolding read_matrix_def
  by (auto split: sum.splits prod.splits if_splits
      dest!: read_signedword_advances simp add: advances_def)

lemma and_not_3: "(k::int) AND NOT 3 = 4 * (k div 4)"
proof -
  have "NOT k AND take_bit 2 k = 0"
    by (simp add: bit_eq_iff bit_simps)
  then have "k - take_bit 2 k = k AND NOT (take_bit 2 k)"
    by (rule disjunctive_diff_eq_and_not)
  also have "\<dots> = k AND NOT (mask 2)"
    by (auto simp add: bit_eq_iff bit_simps)
  finally have "k AND NOT (mask 2) = k - k mod 4"
    by (simp add: take_bit_eq_mod)
  then show ?thesis
    by (simp add: mask_eq_exp_minus_1 minus_mod_eq_mult_div)
qed

lemma align_index: "index (align p) = 4 * ((index p + 3) div 4)"
proof -
  have "nat ((int (index p) + 3) AND NOT 3) = nat (4 * ((int (index p) + 3) div 4))"
    by (simp only: and_not_3)
  also have "\<dots> = 4 * ((index p + 3) div 4)"
    by (simp add: nat_mult_distrib nat_div_distrib nat_add_distrib)
  finally show ?thesis by (simp add: align_def)
qed

lemma align_advances: "advances p (align p)"
proof -
  have "index p \<le> 4 * ((index p + 3) div 4)" by presburger
  then show ?thesis by (simp add: advances_def align_index) (simp add: align_def)
qed

lemma append_control_advances: "advances p (append_control p fc)"
  by (simp add: append_control_def advances_def)

lemma read_comment_frame:
  "string (snd (read_comment p c)) = string p"
  "max_length (snd (read_comment p c)) = max_length p"
  "index p \<le> index (snd (read_comment p c))"
  using read_comment_advances [of p c "fst (read_comment p c)" "snd (read_comment p c)"]
  by (simp_all add: advances_def)

lemma parse_move_advances: "advances p1 (parse_move b s p1)"
  unfolding parse_move_def Let_def
  by (simp add: case_prod_beta advances_def append_control_def read_byte_frame)

lemma parse_gcol_advances: "advances p1 (parse_gcol s p1)"
  unfolding parse_gcol_def Let_def
  by (simp add: case_prod_beta advances_def append_control_def read_byte_frame)

lemma parse_gcol_pair_advances: "advances p1 (parse_gcol_pair s p1)"
  unfolding parse_gcol_pair_def Let_def
  by (simp add: case_prod_beta advances_def append_control_def read_byte_frame)

lemma parse_rgb_advances: "advances p1 (parse_rgb s p1)"
  unfolding parse_rgb_def Let_def
  by (simp add: case_prod_beta advances_def append_control_def read_byte_frame)

lemma parse_comment_advances: "advances p1 (parse_comment s p1)"
  unfolding parse_comment_def
  by (simp add: case_prod_beta advances_def append_control_def read_comment_frame)

lemma parse_underline_advances: "advances p1 (parse_underline s p1)"
  unfolding parse_underline_def Let_def
  by (simp add: case_prod_beta advances_def append_control_def read_byte_frame)

lemma parse_font_advances: "advances p1 (parse_font s p1)"
  unfolding parse_font_def
  by (simp add: case_prod_beta advances_def append_control_def read_byte_frame)

lemma parse_matrix_advances: "parse_matrix b s p1 = Inr p' \<Longrightarrow> advances p1 p'"
  unfolding parse_matrix_def
  using align_advances [of p1]
  by (auto split: sum.splits prod.splits dest!: read_matrix_advances
      simp add: advances_def append_control_def)

lemma parse_printable_advances: "advances p1 (parse_printable b s p1)"
  unfolding parse_printable_def
  by (auto split: option.splits font_control.splits simp add: advances_def append_control_def)

lemma parse_step_Continue:
  assumes "parse_step p = Inr (Continue p')"
  shows "string p' = string p \<and> max_length p' = max_length p \<and> index p < index p'
         \<and> index p < length (string p) \<and> index p < max_length p"
proof -
  obtain b p1 where r: "read_byte p = (b, p1)" by (cases "read_byte p")
  from assms r have nz: "b \<noteq> 0"
    by (auto simp add: parse_step_def)
  have in_range: "index p < length (string p) \<and> index p < max_length p"
    using read_byte_nonzero_in_range [OF r nz] .
  have adv1: "advances p p1" "index p1 = index p + 1"
    using read_byte_advances [OF r] by simp_all
  have "advances p1 p'"
    using assms r unfolding parse_step_def Let_def
    by (auto split: if_splits sum.splits
        simp add: parse_move_advances parse_gcol_advances parse_gcol_pair_advances
          parse_rgb_advances parse_comment_advances parse_underline_advances
          parse_font_advances parse_printable_advances
        dest: parse_matrix_advances)
  with adv1 in_range show ?thesis by (simp add: advances_def)
qed

function parse_loop :: "parser \<Rightarrow> py_error + parser" where
  "parse_loop p =
     (case parse_step p of
        Inl err \<Rightarrow> Inl err
      | Inr (Break p') \<Rightarrow> Inr p'
      | Inr (Continue p') \<Rightarrow> parse_loop p')"
  by pat_completeness auto
termination
proof (relation "measure (\<lambda>p. parse_limit p - index p)")
  show "wf (measure (\<lambda>p. parse_limit p - index p))" by simp
next
  fix p :: parser and r p'
  assume "parse_step p = Inr r" and "r = Continue p'"
  then have "parse_step p = Inr (Continue p')" by simp
  from parse_step_Continue [OF this]
  show "(p', p) \<in> measure (\<lambda>p. parse_limit p - index p)"
    using parse_limit_decreases [of p p'] by simp
qed

declare parse_loop.simps [simp del]

text \<open>\<^verbatim>\<open>parse(string, max_length=None)\<close>.\<close>

definition parse :: "parser \<Rightarrow> bytes \<Rightarrow> int option \<Rightarrow> py_error + parser" where
  "parse p string_arg max_length_arg =
     (let ml = (case max_length_arg of
                  None \<Rightarrow> 2 ^ 20
                | Some m \<Rightarrow> if m \<ge> 2 ^ 20 \<or> m < 0 then 2 ^ 20 else nat m)
      in parse_loop (p\<lparr>string := string_arg, max_length := ml, index := 0\<rparr>))"

section \<open>Colour selection\<close>

lemma gcol_updated_palette_invariant:
  "0 \<le> maxcol c \<Longrightarrow> palette_invariant (gcol_updated h c)"
  by (simp add: palette_invariant_def gcol_updated_def saturate_def Let_def)

lemma maxcol_gcol_updated: "maxcol (gcol_updated h c) = maxcol c"
  by (simp add: gcol_updated_def Let_def)

lemma rgb_updated_palette_invariant:
  "0 \<le> maxcol c \<Longrightarrow> palette_invariant (rgb_updated h c)"
  by (simp add: rgb_updated_def Let_def gcol_updated_palette_invariant)

lemma fgpal_gcol_updated:
  "fgpal (gcol_updated h c) = gcol_to_rgb h (saturate (fg c) 0 (maxcol c))"
  by (simp add: gcol_updated_def Let_def)

lemma bgpal_gcol_updated:
  "bgpal (gcol_updated h c) = gcol_to_rgb h (saturate (bg c) 0 (maxcol c))"
  by (simp add: gcol_updated_def Let_def)

lemma fgpal_rgb_updated:
  "fgpal (rgb_updated h c) = gcol_to_rgb h (saturate (rgb_to_gcol h (fgpal c)) 0 (maxcol c))"
  by (simp add: rgb_updated_def fgpal_gcol_updated Let_def)

lemma bgpal_rgb_updated:
  "bgpal (rgb_updated h c) = gcol_to_rgb h (saturate (rgb_to_gcol h (bgpal c)) 0 (maxcol c))"
  by (simp add: rgb_updated_def bgpal_gcol_updated Let_def)

text \<open>
  Every call of \<^verbatim>\<open>select_colour\<close> that passes \<^verbatim>\<open>bg\<close>, \<^verbatim>\<open>fg\<close>, \<^verbatim>\<open>bgpal\<close> or
  \<^verbatim>\<open>fgpal\<close> runs \<^verbatim>\<open>_gcol_updated\<close> last and so establishes the palette invariant.
\<close>

lemma select_colour_establishes_invariant:
  assumes "0 \<le> maxcol c"
    and "bg_arg \<noteq> None \<or> fg_arg \<noteq> None \<or> bgpal_arg \<noteq> None \<or> fgpal_arg \<noteq> None"
  shows "palette_invariant (select_colour h c bg_arg fg_arg fgoffset_arg bgpal_arg fgpal_arg)"
  using assms unfolding select_colour_def Let_def
  by (cases bg_arg; cases fg_arg; cases fgoffset_arg; cases bgpal_arg; cases fgpal_arg)
     (simp_all add: gcol_updated_palette_invariant rgb_updated_palette_invariant
        maxcol_gcol_updated)

text \<open>
  C1. The claim: from a state that satisfies the palette invariant, every call of
  \<^verbatim>\<open>select_colour\<close>, also one that passes only \<^verbatim>\<open>fgoffset\<close>, leaves
  \<open>fg = saturate (fgbase + fgoffset) 0 maxcol\<close> with \<open>fg\<close> and \<open>bg\<close> in
  \<open>[0, maxcol]\<close>. On the code the call \<^verbatim>\<open>select_colour(fgoffset=14)\<close> on a fresh
  context (which satisfies the invariant) sets \<open>fg = fgbase + fgoffset = 14\<close> and does
  not run \<^verbatim>\<open>_gcol_updated\<close>: \<open>fg\<close> is left above \<open>maxcol = 7\<close>.
\<close>

theorem select_colour_fgoffset_only_unsaturated:
  "palette_invariant (FontContext_init :: unit font_context)
   \<and> fg (select_colour default_hooks (FontContext_init :: unit font_context)
            None None (Some 14) None None) = 14
   \<and> maxcol (select_colour default_hooks (FontContext_init :: unit font_context)
            None None (Some 14) None None) = 7
   \<and> \<not> palette_invariant (select_colour default_hooks (FontContext_init :: unit font_context)
            None None (Some 14) None None)"
  by (simp add: palette_invariant_def select_colour_def FontContext_init_def saturate_def)

theorem select_colour_fgoffset_only_unsaturated_witness:
  "fg (select_colour default_hooks (FontContext_init :: unit font_context)
         None None (Some 14) None None)
   > maxcol (select_colour default_hooks (FontContext_init :: unit font_context)
         None None (Some 14) None None)"
  using select_colour_fgoffset_only_unsaturated by simp

section \<open>The limit test of size\<close>

text \<open>
  C2, as the claim states it, fails: with limits (0, -5) and the cursor at (0, -10) the
  code judges the context beyond limits, while neither \<open>x > limit_x\<close> nor
  \<open>y > limit_y\<close> holds.
\<close>

theorem beyond_limits_negative_limity_counterexample:
  "beyond_limits ((FontContext_init :: unit font_context)
      \<lparr>ctx_x := 0, ctx_y := -10, limitx := Some 0, limity := Some (-5)\<rparr>) = Inr True
   \<and> \<not> beyond_limits_spec 0 (-10) 0 (-5)"
  by (simp add: beyond_limits_def beyond_limits_spec_def FontContext_init_def)

text \<open>
  C2, amended: with both limits set, a context is beyond limits iff \<open>x > limit_x\<close>, or
  \<open>limit_y \<ge> 0\<close> and \<open>y > limit_y\<close>, or \<open>limit_y < 0\<close> and \<open>y < limit_y\<close>.
\<close>

theorem beyond_limits_characterisation:
  assumes "limitx c = Some lx" and "limity c = Some ly"
  shows "beyond_limits c
         = Inr (ctx_x c > lx \<or> (if ly \<ge> 0 then ctx_y c > ly else ctx_y c < ly))"
  using assms by (auto simp add: beyond_limits_def)

theorem beyond_limits_characterisation_witness:
  "beyond_limits ((FontContext_init :: unit font_context)
      \<lparr>ctx_x := 3, ctx_y := -1, limitx := Some 5, limity := Some (-5)\<rparr>) = Inr False"
  using beyond_limits_characterisation
    [of "(FontContext_init :: unit font_context)
           \<lparr>ctx_x := 3, ctx_y := -1, limitx := Some 5, limity := Some (-5)\<rparr>" 5 "-5"]
  by (simp add: FontContext_init_def)

section \<open>Palette and RGB parameters in one call\<close>

text \<open>
  C3, as the claim states it, fails with the default hooks: the call
  \<^verbatim>\<open>select_colour(fg=7, bgpal=0x10, fgpal=0x12345610)\<close> leaves \<open>fgpal = 0x10\<close>,
  not the value it was given.
\<close>

theorem select_colour_rgb_wins_counterexample:
  "fgpal (select_colour default_hooks (FontContext_init :: unit font_context)
            None (Some 7) None (Some 0x10) (Some 0x12345610)) = 0x10
   \<and> (0x10 :: int) \<noteq> 0x12345610"
  by code_simp

text \<open>
  C3, amended: whatever palette parameters the call passes and whatever the hooks are,
  a supplied \<^verbatim>\<open>fgpal\<close> is stored as
  \<open>gcol_to_rgb (saturate (rgb_to_gcol fgpal) 0 maxcol)\<close>, and a supplied \<^verbatim>\<open>bgpal\<close>
  likewise: the RGB side is re-derived from the palette entries the supplied RGB values
  convert to.
\<close>

theorem select_colour_rgb_rederived:
  "fgpal (select_colour h c b f ofs bp (Some fp))
     = gcol_to_rgb h (saturate (rgb_to_gcol h fp) 0 (maxcol c))
   \<and> bgpal (select_colour h c b f ofs (Some bp') fp')
     = gcol_to_rgb h (saturate (rgb_to_gcol h bp') 0 (maxcol c))"
  unfolding select_colour_def Let_def
  by (cases b; cases f; cases ofs; cases bp; cases fp')
     (simp_all add: fgpal_rgb_updated bgpal_rgb_updated maxcol_gcol_updated)

theorem select_colour_rgb_rederived_witness:
  "fgpal (select_colour default_hooks (FontContext_init :: unit font_context)
            (Some 1) (Some 7) None (Some 0x10) (Some 0x12345610))
     = default_gcol_to_rgb (saturate (default_rgb_to_gcol 0x12345610) 0 7)
   \<and> bgpal (select_colour default_hooks (FontContext_init :: unit font_context)
            (Some 1) (Some 7) None (Some 0x10) (Some 0x12345610))
     = default_gcol_to_rgb (saturate (default_rgb_to_gcol 0x10) 0 7)"
  using select_colour_rgb_rederived
    [of default_hooks "FontContext_init :: unit font_context" "Some 1" "Some 7" None
        "Some 0x10" "0x12345610" "0x10" "Some 0x12345610"]
  by (simp add: default_hooks_def FontContext_init_def)

end
